theory Spec2Isabelle
  imports Main "HOL-Library.Word"
begin

unbundle bit_operations_syntax

section \<open>Values, exceptions and library functions\<close>

text \<open>
  The development embeds \<^verbatim>\<open>server/arweave/manual_tx.py\<close>. Python \<^verbatim>\<open>bytes\<close> are lists of
  8-bit words, Python \<^verbatim>\<open>str\<close> is \<^typ>\<open>string\<close> (code points below 256), a raised exception
  is the left summand of a sum type.
\<close>

type_synonym byte = "8 word"
type_synonym bytes = "byte list"

datatype exn = binascii_Error | ValueError | KeyError | TypeError | RequestException

fun class_name :: "exn \<Rightarrow> string" where
  "class_name binascii_Error = ''binascii.Error''"
| "class_name ValueError = ''ValueError''"
| "class_name KeyError = ''KeyError''"
| "class_name TypeError = ''TypeError''"
| "class_name RequestException = ''RequestException''"

subsection \<open>The standard library's base64 module\<close>

text \<open>
  \<^verbatim>\<open>base64.urlsafe_b64encode\<close> is \<^verbatim>\<open>binascii.b2a_base64\<close> followed by the translation of
  \<^verbatim>\<open>+\<close> and \<^verbatim>\<open>/\<close>; \<^verbatim>\<open>base64.urlsafe_b64decode\<close> is the inverse translation followed by
  \<^verbatim>\<open>binascii.a2b_base64\<close> in its default, non-strict mode, which skips every character
  outside the alphabet and stops at a complete pad sequence.
\<close>

definition b64_alphabet :: string where
  "b64_alphabet = ''ABCDEFGHIJKLMNOPQRSTUVWXYZabcdefghijklmnopqrstuvwxyz0123456789+/''"

definition table_b2a_base64 :: "byte \<Rightarrow> char" where
  "table_b2a_base64 i = b64_alphabet ! unat i"

fun index_of :: "string \<Rightarrow> char \<Rightarrow> nat" where
  "index_of [] c = 0"
| "index_of (x # xs) c = (if x = c then 0 else Suc (index_of xs c))"

text \<open>The decoding table holds 255 (the C table's -1) for every character outside the alphabet.\<close>

definition table_a2b_base64 :: "char \<Rightarrow> byte" where
  "table_a2b_base64 c =
     (if c \<in> set b64_alphabet then of_nat (index_of b64_alphabet c) else 255)"

fun b2a_base64 :: "bytes \<Rightarrow> string" where
  "b2a_base64 (a # b # c # rest) =
     [table_b2a_base64 (drop_bit 2 a),
      table_b2a_base64 (push_bit 4 (a AND 3) OR drop_bit 4 b),
      table_b2a_base64 (push_bit 2 (b AND 15) OR drop_bit 6 c),
      table_b2a_base64 (c AND 63)] @ b2a_base64 rest"
| "b2a_base64 [a, b] =
     [table_b2a_base64 (drop_bit 2 a),
      table_b2a_base64 (push_bit 4 (a AND 3) OR drop_bit 4 b),
      table_b2a_base64 (push_bit 2 (b AND 15)),
      CHR ''='']"
| "b2a_base64 [a] =
     [table_b2a_base64 (drop_bit 2 a),
      table_b2a_base64 (push_bit 4 (a AND 3)),
      CHR ''='', CHR ''='']"
| "b2a_base64 [] = []"

text \<open>
  The decoder's loop with its state: the position in the quad, the bits left over from the
  previous character, the pads seen since the last data character, and the output so far.
\<close>

fun a2b_loop :: "nat \<Rightarrow> byte \<Rightarrow> nat \<Rightarrow> bytes \<Rightarrow> string \<Rightarrow> exn + bytes" where
  "a2b_loop quad_pos leftchar pads bin_data [] =
     (if quad_pos \<noteq> 0 then Inl binascii_Error else Inr bin_data)"
| "a2b_loop quad_pos leftchar pads bin_data (ch # rest) =
     (if ch = CHR ''='' then
        (if 2 \<le> quad_pos \<and> 4 \<le> quad_pos + (pads + 1) then Inr bin_data
         else a2b_loop quad_pos leftchar (if 2 \<le> quad_pos then pads + 1 else pads) bin_data rest)
      else
        (let this_ch = table_a2b_base64 ch in
         if 64 \<le> this_ch then a2b_loop quad_pos leftchar pads bin_data rest
         else if quad_pos = 0 then a2b_loop 1 this_ch 0 bin_data rest
         else if quad_pos = 1 then
           a2b_loop 2 (this_ch AND 15) 0
             (bin_data @ [push_bit 2 leftchar OR drop_bit 4 this_ch]) rest
         else if quad_pos = 2 then
           a2b_loop 3 (this_ch AND 3) 0
             (bin_data @ [push_bit 4 leftchar OR drop_bit 2 this_ch]) rest
         else
           a2b_loop 0 0 0 (bin_data @ [push_bit 6 leftchar OR this_ch]) rest))"

definition a2b_base64 :: "string \<Rightarrow> exn + bytes" where
  "a2b_base64 s = a2b_loop 0 0 0 [] s"

definition urlsafe_encode_translation :: "char \<Rightarrow> char" where
  "urlsafe_encode_translation c =
     (if c = CHR ''+'' then CHR ''-'' else if c = CHR ''/'' then CHR ''_'' else c)"

definition urlsafe_decode_translation :: "char \<Rightarrow> char" where
  "urlsafe_decode_translation c =
     (if c = CHR ''-'' then CHR ''+'' else if c = CHR ''_'' then CHR ''/'' else c)"

definition urlsafe_b64encode :: "bytes \<Rightarrow> string" where
  "urlsafe_b64encode s = map urlsafe_encode_translation (b2a_base64 s)"

text \<open>A \<^verbatim>\<open>str\<close> argument with a non-ASCII character is refused with \<^verbatim>\<open>ValueError\<close>.\<close>

definition urlsafe_b64decode :: "string \<Rightarrow> exn + bytes" where
  "urlsafe_b64decode s =
     (if \<exists>c \<in> set s. 128 \<le> (of_char c :: nat) then Inl ValueError
      else a2b_base64 (map urlsafe_decode_translation s))"

definition rstrip :: "char \<Rightarrow> string \<Rightarrow> string" where
  "rstrip ch s = rev (dropWhile (\<lambda>c. c = ch) (rev s))"

subsection \<open>Strings and integers\<close>

definition utf8_char :: "char \<Rightarrow> bytes" where
  "utf8_char c =
     (let cp = (of_char c :: nat)
      in if cp < 128 then [of_nat cp] else [of_nat (192 + cp div 64), of_nat (128 + cp mod 64)])"

definition encode_utf8 :: "string \<Rightarrow> bytes" where
  "encode_utf8 s = concat (map utf8_char s)"

definition digit_char :: "nat \<Rightarrow> char" where
  "digit_char d = char_of (48 + d)"

fun str_nat :: "nat \<Rightarrow> string" where
  "str_nat k = (if k < 10 then [digit_char k] else str_nat (k div 10) @ [digit_char (k mod 10)])"

declare str_nat.simps [simp del]

definition str_int :: "int \<Rightarrow> string" where
  "str_int i = (if i < 0 then CHR ''-'' # str_nat (nat (- i)) else str_nat (nat i))"

definition int_from_bytes_big :: "bytes \<Rightarrow> nat" where
  "int_from_bytes_big bs = foldl (\<lambda>acc b. acc * 256 + unat b) 0 bs"

text \<open>\<^verbatim>\<open>str.strip()\<close> removes the whitespace code points at both ends.\<close>

definition isspace :: "char \<Rightarrow> bool" where
  "isspace c =
     (let cp = (of_char c :: nat)
      in (9 \<le> cp \<and> cp \<le> 13) \<or> (28 \<le> cp \<and> cp \<le> 32) \<or> cp = 133 \<or> cp = 160)"

definition strip :: "string \<Rightarrow> string" where
  "strip s = rev (dropWhile isspace (rev (dropWhile isspace s)))"

subsection \<open>Functions of the imported libraries\<close>

text \<open>
  The digests of \<^verbatim>\<open>hashlib\<close>, \<^verbatim>\<open>json.dumps\<close> and the RSA signature of the
  \<^verbatim>\<open>cryptography\<close> package are not part of the program: the functions that call them take
  them as arguments. The signature function receives the padding and the digest algorithm
  the caller names.
\<close>

datatype padding = PKCS1v15 | PSS
datatype hash_algorithm = SHA256 | SHA384 | SHA512

record 'key externals =
  hashlib_sha256 :: "bytes \<Rightarrow> bytes"
  hashlib_sha384 :: "bytes \<Rightarrow> bytes"
  json_dumps :: "(string \<times> string) list \<Rightarrow> string"
  private_key_sign :: "'key \<Rightarrow> bytes \<Rightarrow> padding \<Rightarrow> hash_algorithm \<Rightarrow> exn + bytes"

section \<open>Utility functions\<close>

definition base64url_encode :: "bytes \<Rightarrow> string" where
  "base64url_encode data = rstrip CHR ''='' (urlsafe_b64encode data)"

definition base64url_decode :: "string \<Rightarrow> exn + bytes" where
  "base64url_decode s =
     (let rem = length s mod 4
      in urlsafe_b64decode (if 0 < rem then s @ replicate (4 - rem) CHR ''='' else s))"

definition sha256 :: "'key externals \<Rightarrow> bytes \<Rightarrow> bytes" where
  "sha256 X data = hashlib_sha256 X data"

text \<open>A bytes literal of the source, written with its ASCII characters.\<close>

definition b_lit :: "string \<Rightarrow> bytes" where
  "b_lit s = map (\<lambda>c. of_nat (of_char c)) s"

definition bind_exn :: "exn + 'a \<Rightarrow> ('a \<Rightarrow> exn + 'b) \<Rightarrow> exn + 'b" where
  "bind_exn r f = (case r of Inl e \<Rightarrow> Inl e | Inr v \<Rightarrow> f v)"

subsection \<open>load_jwk\<close>

text \<open>
  The key file's parsed JSON object is the input; reading the file is outside the model.
  \<^verbatim>\<open>RSAPrivateNumbers(...).private_key()\<close> belongs to the \<^verbatim>\<open>cryptography\<close> package and is an
  argument: it returns the key object or raises.
\<close>

record RSAPublicNumbers =
  pub_e :: nat
  pub_n :: nat

record RSAPrivateNumbers =
  rsa_p :: nat
  rsa_q :: nat
  rsa_d :: nat
  rsa_dmp1 :: nat
  rsa_dmq1 :: nat
  rsa_iqmp :: nat
  public_numbers :: RSAPublicNumbers

type_synonym jwk = "string \<rightharpoonup> string"

definition getitem :: "jwk \<Rightarrow> string \<Rightarrow> exn + string" where
  "getitem m k = (case m k of None \<Rightarrow> Inl KeyError | Some v \<Rightarrow> Inr v)"

definition jwk_int :: "jwk \<Rightarrow> string \<Rightarrow> exn + nat" where
  "jwk_int jwk k =
     bind_exn (getitem jwk k) (\<lambda>s.
     bind_exn (base64url_decode s) (\<lambda>b. Inr (int_from_bytes_big b)))"

definition load_jwk :: "(RSAPrivateNumbers \<Rightarrow> exn + 'key) \<Rightarrow> jwk \<Rightarrow> exn + ('key \<times> jwk)" where
  "load_jwk private_key jwk =
     bind_exn (jwk_int jwk ''n'') (\<lambda>n.
     bind_exn (jwk_int jwk ''e'') (\<lambda>e.
     bind_exn (jwk_int jwk ''d'') (\<lambda>d.
     bind_exn (jwk_int jwk ''p'') (\<lambda>p.
     bind_exn (jwk_int jwk ''q'') (\<lambda>q.
     bind_exn (jwk_int jwk ''dp'') (\<lambda>dp.
     bind_exn (jwk_int jwk ''dq'') (\<lambda>dq.
     bind_exn (jwk_int jwk ''qi'') (\<lambda>qi.
     bind_exn (private_key
        \<lparr>rsa_p = p, rsa_q = q, rsa_d = d, rsa_dmp1 = dp, rsa_dmq1 = dq, rsa_iqmp = qi,
         public_numbers = \<lparr>pub_e = e, pub_n = n\<rparr>\<rparr>) (\<lambda>privkey.
     Inr (privkey, jwk))))))))))"

subsection \<open>get_anchor and get_price\<close>

text \<open>\<^verbatim>\<open>requests.get\<close> is an argument: it returns a response or raises.\<close>

record response =
  status_code :: int
  body_text :: string

definition get_anchor :: "(string \<Rightarrow> exn + response) \<Rightarrow> string \<Rightarrow> exn + string" where
  "get_anchor requests_get node_url =
     bind_exn (requests_get (node_url @ ''/tx_anchor'')) (\<lambda>r.
     if status_code r = 200 then Inr (strip (body_text r)) else Inr [])"

definition get_price :: "(string \<Rightarrow> exn + response) \<Rightarrow> string \<Rightarrow> int \<Rightarrow> exn + string" where
  "get_price requests_get node_url size' =
     bind_exn (requests_get (node_url @ ''/price/'' @ str_int size')) (\<lambda>r.
     if status_code r = 200 then Inr (strip (body_text r)) else Inr ''0'')"

section \<open>Deep hashing\<close>

text \<open>
  The transaction dictionary with the twelve keys the program gives it. The key \<^verbatim>\<open>id\<close> is
  the field \<open>id'\<close>.
\<close>

record tx_fields =
  format :: int
  id' :: string
  last_tx :: string
  owner :: string
  tags :: "(string \<times> string) list"
  target :: string
  quantity :: string
  data :: string
  reward :: string
  signature :: string
  data_size :: string
  data_root :: string

text \<open>
  The objects the hashing loop sees: every element of its list is a pair, and the loop asks
  of the pair's second component whether it is a tuple.
\<close>

datatype pyobj = Bytes bytes | Tuple "pyobj list"

fun isinstance_tuple :: "pyobj \<Rightarrow> bool" where
  "isinstance_tuple (Tuple xs) = True"
| "isinstance_tuple (Bytes b) = False"

fun deep_hash_chunk :: "'key externals \<Rightarrow> pyobj \<Rightarrow> pyobj \<Rightarrow> exn + bytes" where
  "deep_hash_chunk X (Bytes chunk_type) (Bytes chunk) = Inr (hashlib_sha384 X (chunk_type @ chunk))"
| "deep_hash_chunk X chunk_type chunk = Inl TypeError"

text \<open>The list the loop of \<^verbatim>\<open>deep_hash_transaction_v2\<close> runs over, built in the source's order.\<close>

definition labelled_chunks :: "'key externals \<Rightarrow> tx_fields \<Rightarrow> exn + (pyobj \<times> pyobj) list" where
  "labelled_chunks X tx_fields =
     (let format_bytes = encode_utf8 (str_int (format tx_fields)) in
      bind_exn (base64url_decode (owner tx_fields)) (\<lambda>owner_bytes.
      let reward_bytes = encode_utf8 (reward tx_fields) in
      bind_exn (if last_tx tx_fields \<noteq> [] then base64url_decode (last_tx tx_fields) else Inr [])
        (\<lambda>last_tx_bytes.
      bind_exn (base64url_decode (data_root tx_fields)) (\<lambda>data_root_bytes.
      let data_size_bytes = encode_utf8 (data_size tx_fields);
          tags_bytes = encode_utf8 (json_dumps X (tags tx_fields)) in
      bind_exn (if target tx_fields \<noteq> []
                then bind_exn (base64url_decode (target tx_fields))
                       (\<lambda>t. Inr (Bytes (b_lit ''ARWEAVE_TARGET''), Bytes t))
                else Inr (Bytes (b_lit []), Bytes (b_lit []))) (\<lambda>target_entry.
      Inr [(Bytes (b_lit ''ARWEAVE_FORMAT''), Bytes format_bytes),
           (Bytes (b_lit ''ARWEAVE_OWNER''), Bytes owner_bytes),
           (Bytes (b_lit ''ARWEAVE_REWARD''), Bytes reward_bytes),
           (Bytes (b_lit ''ARWEAVE_LAST_TX''), Bytes last_tx_bytes),
           (Bytes (b_lit ''ARWEAVE_DATA_ROOT''), Bytes data_root_bytes),
           (Bytes (b_lit ''ARWEAVE_DATA_SIZE''), Bytes data_size_bytes),
           (Bytes (b_lit ''ARWEAVE_TAGS''), Bytes tags_bytes),
           target_entry,
           (Bytes (b_lit ''ARWEAVE_QUANTITY''), Bytes (encode_utf8 (quantity tx_fields)))])))))"

fun hash_loop :: "'key externals \<Rightarrow> bytes \<Rightarrow> (pyobj \<times> pyobj) list \<Rightarrow> exn + bytes" where
  "hash_loop X to_hash [] = Inr to_hash"
| "hash_loop X to_hash ((label, chunk) # rest) =
     (if isinstance_tuple chunk then hash_loop X to_hash rest
      else bind_exn (deep_hash_chunk X label chunk) (\<lambda>chunk_hash.
           hash_loop X (to_hash @ chunk_hash) rest))"

definition deep_hash_transaction_v2 :: "'key externals \<Rightarrow> tx_fields \<Rightarrow> exn + bytes" where
  "deep_hash_transaction_v2 X tx_fields =
     bind_exn (labelled_chunks X tx_fields) (\<lambda>chunks.
     bind_exn (hash_loop X [] chunks) (\<lambda>to_hash.
     Inr (hashlib_sha384 X to_hash)))"

section \<open>Signing\<close>

text \<open>
  The dictionary is an object on the heap: \<^verbatim>\<open>sign_transaction_v2\<close> receives a reference,
  assigns to the object's keys, and returns a reference. An exception leaves the heap as
  it was when it was raised.
\<close>

type_synonym ref = nat
type_synonym heap = "ref \<Rightarrow> tx_fields"

definition sign_transaction_v2 ::
  "'key externals \<Rightarrow> ref \<Rightarrow> 'key \<Rightarrow> heap \<Rightarrow> (exn + ref) \<times> heap" where
  "sign_transaction_v2 X tx_fields private_key h =
     (case (if data (h tx_fields) \<noteq> []
            then bind_exn (base64url_decode (data (h tx_fields))) (\<lambda>data_bytes.
                   Inr (h(tx_fields := (h tx_fields)
                          \<lparr>data_root := base64url_encode (sha256 X data_bytes)\<rparr>)))
            else Inr (h(tx_fields := (h tx_fields)\<lparr>data_root := []\<rparr>))) of
        Inl e \<Rightarrow> (Inl e, h)
      | Inr h1 \<Rightarrow>
          (case deep_hash_transaction_v2 X (h1 tx_fields) of
             Inl e \<Rightarrow> (Inl e, h1)
           | Inr dd \<Rightarrow>
               (case private_key_sign X private_key dd PKCS1v15 SHA384 of
                  Inl e \<Rightarrow> (Inl e, h1)
                | Inr signature_bytes \<Rightarrow>
                    (let sig_b64 = base64url_encode signature_bytes;
                         h2 = h1(tx_fields := (h1 tx_fields)\<lparr>signature := sig_b64\<rparr>);
                         id_bytes = sha256 X signature_bytes;
                         id_b64 = base64url_encode id_bytes;
                         h3 = h2(tx_fields := (h2 tx_fields)\<lparr>id' := id_b64\<rparr>)
                     in (Inr tx_fields, h3)))))"

section \<open>The main program\<close>

text \<open>
  The dictionary \<^verbatim>\<open>main\<close> builds from the anchor, the key's modulus, the fee and the payload.
  The payload is a literal in \<^verbatim>\<open>main\<close>; here it is an argument.
\<close>

definition main_tx_fields :: "string \<Rightarrow> string \<Rightarrow> string \<Rightarrow> bytes \<Rightarrow> tx_fields" where
  "main_tx_fields anchor jwk_n reward_str data_bytes =
     (let data_b64 = base64url_encode data_bytes;
          data_len = int (length data_bytes)
      in \<lparr>format = 2, id' = [], last_tx = anchor, owner = jwk_n, tags = [], target = [],
          quantity = ''0'', data = data_b64, reward = reward_str, signature = [],
          data_size = str_int data_len, data_root = []\<rparr>)"

text \<open>
  \<^verbatim>\<open>main\<close> up to the signed dictionary: the key is loaded, anchor and fee are fetched, the
  dictionary is allocated at a reference the heap hands out, and signed.
\<close>

definition main ::
  "'key externals \<Rightarrow> (RSAPrivateNumbers \<Rightarrow> exn + 'key) \<Rightarrow> (string \<Rightarrow> exn + response) \<Rightarrow>
   jwk \<Rightarrow> bytes \<Rightarrow> ref \<Rightarrow> heap \<Rightarrow> (exn + ref) \<times> heap" where
  "main X private_key requests_get key_file data_bytes new_ref h =
     (let node_url = ''http://localhost:1984'' in
      case load_jwk private_key key_file of
        Inl e \<Rightarrow> (Inl e, h)
      | Inr (privkey, jwk) \<Rightarrow>
          (case get_anchor requests_get node_url of
             Inl e \<Rightarrow> (Inl e, h)
           | Inr anchor \<Rightarrow>
               (case get_price requests_get node_url (int (length data_bytes)) of
                  Inl e \<Rightarrow> (Inl e, h)
                | Inr reward_str \<Rightarrow>
                    (case getitem jwk ''n'' of
                       Inl e \<Rightarrow> (Inl e, h)
                     | Inr jwk_n \<Rightarrow>
                         sign_transaction_v2 X new_ref privkey
                           (h(new_ref := main_tx_fields anchor jwk_n reward_str data_bytes))))))"

section \<open>Example arguments\<close>

text \<open>
  A concrete instance of the library functions and the dictionary \<^verbatim>\<open>main\<close> builds for the
  anchor \<^verbatim>\<open>abc\<close>, the modulus \<^verbatim>\<open>AQAB\<close>, the fee \<^verbatim>\<open>100\<close> and the payload \<^verbatim>\<open>hello\<close>. The
  digests are a tag byte before a truncation and the signature function returns its message, so that every
  term below evaluates; no theorem about the program depends on them.
\<close>

definition example_externals :: "unit externals" where
  "example_externals =
     \<lparr>hashlib_sha256 = (\<lambda>b. 1 # take 1 b), hashlib_sha384 = (\<lambda>b. 2 # take 2 b), json_dumps = (\<lambda>t. ''[]''),
      private_key_sign =
        (\<lambda>k m p a. if p = PKCS1v15 \<and> a = SHA384 then Inr m else Inl ValueError)\<rparr>"

definition example_tx :: tx_fields where
  "example_tx = main_tx_fields ''abc'' ''AQAB'' ''100'' (b_lit ''hello'')"

text \<open>A key file whose modulus 15 is not the product of its primes 3 and 4.\<close>

definition example_jwk :: jwk where
  "example_jwk =
     map_of [(''n'', ''Dw''), (''e'', ''AQAB''), (''d'', ''AQ''), (''p'', ''Aw''), (''q'', ''BA''),
             (''dp'', ''AQ''), (''dq'', ''AQ''), (''qi'', ''AQ'')]"

section \<open>The base64url codec\<close>

subsection \<open>Sextets of a byte triple\<close>

lemma byte_eqI:
  "(\<And>k. k \<in> {0, 1, 2, 3, 4, 5, 6, 7 :: nat} \<Longrightarrow> bit (x :: byte) k = bit y k) \<Longrightarrow> x = y"
proof (rule bit_word_eqI)
  fix k
  assume a: "\<And>k. k \<in> {0, 1, 2, 3, 4, 5, 6, 7 :: nat} \<Longrightarrow> bit x k = bit y k"
    and "k < LENGTH(8)"
  then have "k < 8" by simp
  then have "k \<in> {0, 1, 2, 3, 4, 5, 6, 7 :: nat}" by auto
  then show "bit x k = bit y k" by (rule a)
qed

lemma mask3: "(a :: byte) AND 3 = take_bit 2 a"
  by (simp add: take_bit_eq_mask mask_eq_exp_minus_1)

lemma mask15: "(a :: byte) AND 15 = take_bit 4 a"
  by (simp add: take_bit_eq_mask mask_eq_exp_minus_1)

lemma mask63: "(a :: byte) AND 63 = take_bit 6 a"
  by (simp add: take_bit_eq_mask mask_eq_exp_minus_1)

lemma bit_Suc_numeral:
  "bit (a :: byte) (Suc (Suc 0)) = bit a 2"
  "bit (a :: byte) (Suc (Suc (Suc 0))) = bit a 3"
  by (simp_all add: numeral_2_eq_2 numeral_3_eq_3)

lemmas sextet_simps = bit_simps mask3 mask15 mask63 bit_Suc_numeral

lemma join1: "push_bit 2 (drop_bit 2 (a :: byte)) OR drop_bit 4 (push_bit 4 (a AND 3) OR drop_bit 4 b) = a"
  by (rule byte_eqI) (auto simp add: sextet_simps dest: bit_imp_le_length)

lemma join1': "push_bit 2 (drop_bit 2 (a :: byte)) OR drop_bit 4 (push_bit 4 (a AND 3)) = a"
  by (rule byte_eqI) (auto simp add: sextet_simps dest: bit_imp_le_length)

lemma join2:
  "push_bit 4 ((push_bit 4 (a AND 3) OR drop_bit 4 b) AND 15)
     OR drop_bit 2 (push_bit 2 (b AND 15) OR drop_bit 6 c) = (b :: byte)"
  by (rule byte_eqI) (auto simp add: sextet_simps dest: bit_imp_le_length)

lemma join2':
  "push_bit 4 ((push_bit 4 (a AND 3) OR drop_bit 4 b) AND 15)
     OR drop_bit 2 (push_bit 2 (b AND 15)) = (b :: byte)"
  by (rule byte_eqI) (auto simp add: sextet_simps dest: bit_imp_le_length)

lemma join3:
  "push_bit 6 ((push_bit 2 (b AND 15) OR drop_bit 6 c) AND 3) OR (c AND 63) = (c :: byte)"
  by (rule byte_eqI) (auto simp add: sextet_simps dest: bit_imp_le_length)

lemma sextetI: "take_bit 6 (x :: byte) = x \<Longrightarrow> unat x < 64"
proof -
  assume "take_bit 6 x = x"
  then have "unat x = unat (take_bit 6 x)" by simp
  also have "\<dots> = take_bit 6 (unat x)" by (simp add: unsigned_take_bit_eq)
  also have "\<dots> < 2 ^ 6" by (rule take_bit_nat_less_exp)
  finally show ?thesis by simp
qed

lemma sextet1: "unat (drop_bit 2 (a :: byte)) < 64"
  by (rule sextetI, rule byte_eqI) (auto simp add: sextet_simps dest: bit_imp_le_length)

lemma sextet2: "unat (push_bit 4 (a AND 3) OR drop_bit 4 (b :: byte)) < 64"
  by (rule sextetI, rule byte_eqI) (auto simp add: sextet_simps dest: bit_imp_le_length)

lemma sextet2': "unat (push_bit 4 ((a :: byte) AND 3)) < 64"
  by (rule sextetI, rule byte_eqI) (auto simp add: sextet_simps dest: bit_imp_le_length)

lemma sextet3: "unat (push_bit 2 (b AND 15) OR drop_bit 6 (c :: byte)) < 64"
  by (rule sextetI, rule byte_eqI) (auto simp add: sextet_simps dest: bit_imp_le_length)

lemma sextet3': "unat (push_bit 2 ((b :: byte) AND 15)) < 64"
  by (rule sextetI, rule byte_eqI) (auto simp add: sextet_simps dest: bit_imp_le_length)

lemma sextet4: "unat ((c :: byte) AND 63) < 64"
  by (rule sextetI, rule byte_eqI) (auto simp add: sextet_simps dest: bit_imp_le_length)

lemmas sextets = sextet1 sextet2 sextet2' sextet3 sextet3' sextet4

lemma length_b64_alphabet: "length b64_alphabet = 64"
  by (simp add: b64_alphabet_def)

lemma distinct_b64_alphabet: "distinct b64_alphabet"
  by (simp add: b64_alphabet_def)

lemma index_of_nth: "distinct xs \<Longrightarrow> k < length xs \<Longrightarrow> index_of xs (xs ! k) = k"
proof (induction xs arbitrary: k)
  case Nil
  then show ?case by simp
next
  case (Cons x xs)
  then show ?case by (cases k) auto
qed

lemma alphabet_chars:
  "\<forall>c \<in> set b64_alphabet. c \<noteq> CHR ''='' \<and> c \<noteq> CHR ''-'' \<and> c \<noteq> CHR ''_'' \<and> (of_char c :: nat) < 128"
  by (simp add: b64_alphabet_def)

lemma table_b2a_in: "unat i < 64 \<Longrightarrow> table_b2a_base64 i \<in> set b64_alphabet"
  by (simp add: table_b2a_base64_def length_b64_alphabet)

lemma table_a2b_b2a: "unat i < 64 \<Longrightarrow> table_a2b_base64 (table_b2a_base64 i) = i"
  by (simp add: table_a2b_base64_def table_b2a_in)
     (simp add: table_b2a_base64_def index_of_nth distinct_b64_alphabet length_b64_alphabet)

lemma not_ge_64: "unat (i :: byte) < 64 \<Longrightarrow> \<not> 64 \<le> i"
  by (simp add: word_le_nat_alt)

lemma translation_inverse:
  "c \<in> set b64_alphabet \<Longrightarrow> urlsafe_decode_translation (urlsafe_encode_translation c) = c"
  using alphabet_chars
  by (auto simp add: urlsafe_decode_translation_def urlsafe_encode_translation_def)


lemma enc_char_props:
  assumes "unat i < 64"
  shows "urlsafe_encode_translation (table_b2a_base64 i) \<noteq> CHR ''=''" 
    and "(of_char (urlsafe_encode_translation (table_b2a_base64 i)) :: nat) < 128"
    and "table_a2b_base64 (urlsafe_decode_translation (urlsafe_encode_translation (table_b2a_base64 i))) = i"
proof -
  have m: "table_b2a_base64 i \<in> set b64_alphabet" using assms by (rule table_b2a_in)
  with alphabet_chars show "urlsafe_encode_translation (table_b2a_base64 i) \<noteq> CHR ''=''"
    by (auto simp add: urlsafe_encode_translation_def)
  from m alphabet_chars show "(of_char (urlsafe_encode_translation (table_b2a_base64 i)) :: nat) < 128"
    by (auto simp add: urlsafe_encode_translation_def)
  from m show "table_a2b_base64 (urlsafe_decode_translation (urlsafe_encode_translation (table_b2a_base64 i))) = i"
    by (simp add: translation_inverse table_a2b_b2a assms)
qed

lemma pad_translation [simp]: "urlsafe_decode_translation CHR ''='' = CHR ''=''"
  "urlsafe_encode_translation CHR ''='' = CHR ''=''"
  by (simp_all add: urlsafe_decode_translation_def urlsafe_encode_translation_def)

lemma decode_translation_pad:
  "unat i < 64 \<Longrightarrow> urlsafe_decode_translation (urlsafe_encode_translation (table_b2a_base64 i)) \<noteq> CHR ''=''"
  using alphabet_chars table_b2a_in [of i]
  by (auto simp add: urlsafe_decode_translation_def urlsafe_encode_translation_def)


lemma a2b_quad:
  assumes "unat i0 < 64" "unat i1 < 64" "unat i2 < 64" "unat i3 < 64"
  shows "a2b_loop 0 l 0 out
           (urlsafe_decode_translation (urlsafe_encode_translation (table_b2a_base64 i0)) #
            urlsafe_decode_translation (urlsafe_encode_translation (table_b2a_base64 i1)) #
            urlsafe_decode_translation (urlsafe_encode_translation (table_b2a_base64 i2)) #
            urlsafe_decode_translation (urlsafe_encode_translation (table_b2a_base64 i3)) # rest)
         = a2b_loop 0 0 0
             (out @ [push_bit 2 i0 OR drop_bit 4 i1, push_bit 4 (i1 AND 15) OR drop_bit 2 i2,
                     push_bit 6 (i2 AND 3) OR i3]) rest"
  using assms by (simp add: enc_char_props not_ge_64 decode_translation_pad)

lemma a2b_tail2:
  assumes "unat i0 < 64" "unat i1 < 64" "unat i2 < 64"
  shows "a2b_loop 0 l 0 out
           [urlsafe_decode_translation (urlsafe_encode_translation (table_b2a_base64 i0)),
            urlsafe_decode_translation (urlsafe_encode_translation (table_b2a_base64 i1)),
            urlsafe_decode_translation (urlsafe_encode_translation (table_b2a_base64 i2)),
            CHR ''='']
         = Inr (out @ [push_bit 2 i0 OR drop_bit 4 i1, push_bit 4 (i1 AND 15) OR drop_bit 2 i2])"
  using assms by (simp add: enc_char_props not_ge_64 decode_translation_pad)

lemma a2b_tail1:
  assumes "unat i0 < 64" "unat i1 < 64"
  shows "a2b_loop 0 l 0 out
           [urlsafe_decode_translation (urlsafe_encode_translation (table_b2a_base64 i0)),
            urlsafe_decode_translation (urlsafe_encode_translation (table_b2a_base64 i1)),
            CHR ''='', CHR ''='']
         = Inr (out @ [push_bit 2 i0 OR drop_bit 4 i1])"
  using assms by (simp add: enc_char_props not_ge_64 decode_translation_pad)

lemmas encoded_unfold = urlsafe_b64encode_def b2a_base64.simps list.map append_Cons append_Nil
  pad_translation

lemma a2b_loop_encoded:
  "a2b_loop 0 l 0 out (map urlsafe_decode_translation (urlsafe_b64encode b)) = Inr (out @ b)"
proof (induction b arbitrary: l out rule: b2a_base64.induct)
  case (1 a b c rest)
  have "a2b_loop 0 l 0 out (map urlsafe_decode_translation (urlsafe_b64encode (a # b # c # rest)))
      = a2b_loop 0 0 0 (out @ [a, b, c]) (map urlsafe_decode_translation (urlsafe_b64encode rest))"
    by (simp only: encoded_unfold a2b_quad [OF sextet1 sextet2 sextet3 sextet4] join1 join2 join3)
  also have "\<dots> = Inr ((out @ [a, b, c]) @ rest)"
    by (rule "1.IH")
  finally show ?case by simp
next
  case (2 a b)
  have "a2b_loop 0 l 0 out (map urlsafe_decode_translation (urlsafe_b64encode [a, b]))
      = Inr (out @ [a, b])"
    by (simp only: encoded_unfold a2b_tail2 [OF sextet1 sextet2 sextet3'] join1 join2')
  then show ?case .
next
  case (3 a)
  have "a2b_loop 0 l 0 out (map urlsafe_decode_translation (urlsafe_b64encode [a]))
      = Inr (out @ [a])"
    by (simp only: encoded_unfold a2b_tail1 [OF sextet1 sextet2'] join1')
  then show ?case .
next
  case 4
  then show ?case by (simp add: urlsafe_b64encode_def)
qed

lemma urlsafe_b64encode_ascii: "\<forall>c \<in> set (urlsafe_b64encode b). (of_char c :: nat) < 128"
  by (induction b rule: b2a_base64.induct)
     (simp_all add: urlsafe_b64encode_def enc_char_props sextets del: push_bit_and)

lemma rstrip_Cons: "x \<noteq> ch \<Longrightarrow> rstrip ch (x # xs) = x # rstrip ch xs"
  by (simp add: rstrip_def dropWhile_append)

lemma rstrip_pads [simp]: "rstrip ch [] = []" "rstrip ch [ch] = []" "rstrip ch [ch, ch] = []"
  by (simp_all add: rstrip_def)

lemma replicate_2: "replicate 2 c = [c, c]"
  by (simp add: numeral_2_eq_2)

lemma repad_quad:
  assumes "x \<noteq> ch" "y \<noteq> ch" "z \<noteq> ch" "w \<noteq> ch"
    and "(if 0 < length (rstrip ch xs) mod 4
          then rstrip ch xs @ replicate (4 - length (rstrip ch xs) mod 4) ch
          else rstrip ch xs) = xs"
  shows "(if 0 < length (rstrip ch (x # y # z # w # xs)) mod 4
          then rstrip ch (x # y # z # w # xs)
                 @ replicate (4 - length (rstrip ch (x # y # z # w # xs)) mod 4) ch
          else rstrip ch (x # y # z # w # xs)) = x # y # z # w # xs"
  using assms by (simp add: rstrip_Cons split: if_splits)

lemma repad_tail2:
  assumes "x \<noteq> ch" "y \<noteq> ch" "z \<noteq> ch"
  shows "(if 0 < length (rstrip ch [x, y, z, ch]) mod 4
          then rstrip ch [x, y, z, ch] @ replicate (4 - length (rstrip ch [x, y, z, ch]) mod 4) ch
          else rstrip ch [x, y, z, ch]) = [x, y, z, ch]"
  using assms by (simp add: rstrip_Cons)

lemma repad_tail1:
  assumes "x \<noteq> ch" "y \<noteq> ch"
  shows "(if 0 < length (rstrip ch [x, y, ch, ch]) mod 4
          then rstrip ch [x, y, ch, ch] @ replicate (4 - length (rstrip ch [x, y, ch, ch]) mod 4) ch
          else rstrip ch [x, y, ch, ch]) = [x, y, ch, ch]"
  using assms by (simp add: rstrip_Cons replicate_2)

lemma repad_encoded:
  "(if 0 < length (base64url_encode b) mod 4
    then base64url_encode b @ replicate (4 - length (base64url_encode b) mod 4) CHR ''=''
    else base64url_encode b) = urlsafe_b64encode b"
proof (induction b rule: b2a_base64.induct)
  case (1 a b c rest)
  note ih = "1.IH" [unfolded base64url_encode_def urlsafe_b64encode_def]
  show ?case
    unfolding base64url_encode_def
    by (simp only: encoded_unfold)
       (rule repad_quad [OF _ _ _ _ ih]; (rule enc_char_props sextets)+)
next
  case (2 a b)
  show ?case
    unfolding base64url_encode_def
    by (simp only: encoded_unfold) (rule repad_tail2; (rule enc_char_props sextets)+)
next
  case (3 a)
  show ?case
    unfolding base64url_encode_def
    by (simp only: encoded_unfold) (rule repad_tail1; (rule enc_char_props sextets)+)
next
  case 4
  then show ?case by (simp add: base64url_encode_def urlsafe_b64encode_def)
qed

lemma base64url_decode_encode: "base64url_decode (base64url_encode b) = Inr b"
proof -
  have "base64url_decode (base64url_encode b) = urlsafe_b64decode (urlsafe_b64encode b)"
    unfolding base64url_decode_def Let_def by (simp only: repad_encoded)
  also have "\<dots> = a2b_base64 (map urlsafe_decode_translation (urlsafe_b64encode b))"
    using urlsafe_b64encode_ascii [of b] by (auto simp add: urlsafe_b64decode_def)
  also have "\<dots> = Inr b"
    by (simp add: a2b_base64_def a2b_loop_encoded)
  finally show ?thesis .
qed

text \<open>
  C6: for every byte string, the empty one included, decoding the base64url encoding gives
  the byte string back: the encoder strips the pad characters, the decoder pads its input
  to a multiple of four characters and decodes it without an error.
\<close>

theorem base64url_roundtrip: "base64url_decode (base64url_encode b) = Inr b"
  by (rule base64url_decode_encode)

section \<open>The signer\<close>

subsection \<open>Outcomes of signing\<close>

lemma bind_exn_simps [simp]: "bind_exn (Inl e) f = Inl e" "bind_exn (Inr u) f = f u"
  by (simp_all add: bind_exn_def)

lemma sign_transaction_v2_success:
  assumes "fst (sign_transaction_v2 X r k h) = Inr r'"
  shows "\<exists>root dd sg.
           (if data (h r) \<noteq> []
            then \<exists>data_bytes. base64url_decode (data (h r)) = Inr data_bytes
                   \<and> root = base64url_encode (sha256 X data_bytes)
            else root = [])
         \<and> deep_hash_transaction_v2 X ((h r)\<lparr>data_root := root\<rparr>) = Inr dd
         \<and> private_key_sign X k dd PKCS1v15 SHA384 = Inr sg
         \<and> r' = r
         \<and> snd (sign_transaction_v2 X r k h) =
             h(r := (h r)\<lparr>data_root := root, signature := base64url_encode sg,
                          id' := base64url_encode (sha256 X sg)\<rparr>)"
proof (cases "data (h r) = []")
  case True
  with assms show ?thesis
    by (auto simp add: sign_transaction_v2_def Let_def split: sum.splits)
next
  case False
  with assms show ?thesis
    by (cases "base64url_decode (data (h r))")
       (auto simp add: sign_transaction_v2_def Let_def split: sum.splits)
qed

lemma sign_transaction_v2_failure:
  assumes "fst (sign_transaction_v2 X r k h) = Inl e"
  shows "signature (snd (sign_transaction_v2 X r k h) r) = signature (h r)
       \<and> id' (snd (sign_transaction_v2 X r k h) r) = id' (h r)"
proof (cases "data (h r) = []")
  case True
  with assms show ?thesis
    by (auto simp add: sign_transaction_v2_def Let_def split: sum.splits)
next
  case False
  with assms show ?thesis
    by (cases "base64url_decode (data (h r))")
       (auto simp add: sign_transaction_v2_def Let_def split: sum.splits)
qed


lemma base64url_decode_Nil: "base64url_decode [] = Inr []"
  by (simp add: base64url_decode_def urlsafe_b64decode_def a2b_base64_def)

lemma base64url_encode_Nil_iff: "base64url_encode b = [] \<longleftrightarrow> b = []"
proof
  assume e: "base64url_encode b = []"
  have "Inr b = base64url_decode (base64url_encode b)"
    by (simp add: base64url_decode_encode)
  also have "\<dots> = base64url_decode []" by (simp only: e)
  also have "\<dots> = Inr []" by (rule base64url_decode_Nil)
  finally show "b = []" by simp
next
  assume "b = []"
  then show "base64url_encode b = []"
    by (simp add: base64url_encode_def urlsafe_b64encode_def)
qed

lemma sign_transaction_v2_data_root:
  "sign_transaction_v2 X r k (h(r := (h r)\<lparr>data_root := x\<rparr>)) =
     (fst (sign_transaction_v2 X r k h),
      if (\<exists>e. data (h r) \<noteq> [] \<and> base64url_decode (data (h r)) = Inl e)
      then h(r := (h r)\<lparr>data_root := x\<rparr>) else snd (sign_transaction_v2 X r k h))"
proof (cases "data (h r) = []")
  case True
  then show ?thesis
    by (auto simp add: sign_transaction_v2_def Let_def split: sum.splits)
next
  case False
  then show ?thesis
    by (cases "base64url_decode (data (h r))")
       (auto simp add: sign_transaction_v2_def Let_def split: sum.splits)
qed

subsection \<open>Signature, identifier and frame\<close>

text \<open>
  C3: when \<^verbatim>\<open>sign_transaction_v2\<close> returns, the deep hash of the record (with the data root
  it has just computed) was signed with the key under PKCS#1 v1.5 padding and SHA-384, the
  signature field holds the base64url encoding of the raw signature, and the id field holds
  the base64url encoding of the SHA-256 digest of the raw signature.
\<close>

theorem sign_transaction_v2_signature_id:
  assumes "fst (sign_transaction_v2 X r k h) = Inr r'"
  shows "\<exists>dd sg.
           deep_hash_transaction_v2 X
             ((h r)\<lparr>data_root := data_root (snd (sign_transaction_v2 X r k h) r)\<rparr>) = Inr dd
         \<and> private_key_sign X k dd PKCS1v15 SHA384 = Inr sg
         \<and> signature (snd (sign_transaction_v2 X r k h) r) = base64url_encode sg
         \<and> id' (snd (sign_transaction_v2 X r k h) r) = base64url_encode (hashlib_sha256 X sg)"
  using sign_transaction_v2_success [OF assms] by (auto simp add: sha256_def)

theorem sign_transaction_v2_signature_id_witness:
  "fst (sign_transaction_v2 example_externals 0 () (\<lambda>r. example_tx)) = Inr 0
   \<and> (\<exists>dd sg.
         deep_hash_transaction_v2 example_externals
           (example_tx\<lparr>data_root :=
              data_root (snd (sign_transaction_v2 example_externals 0 () (\<lambda>r. example_tx)) 0)\<rparr>)
           = Inr dd
       \<and> private_key_sign example_externals () dd PKCS1v15 SHA384 = Inr sg
       \<and> signature (snd (sign_transaction_v2 example_externals 0 () (\<lambda>r. example_tx)) 0)
           = base64url_encode sg
       \<and> id' (snd (sign_transaction_v2 example_externals 0 () (\<lambda>r. example_tx)) 0)
           = base64url_encode (hashlib_sha256 example_externals sg))"
proof -
  have h: "fst (sign_transaction_v2 example_externals 0 () (\<lambda>r. example_tx)) = Inr 0"
    by code_simp
  from h sign_transaction_v2_signature_id [OF h] show ?thesis by simp
qed

text \<open>
  C9: a successful \<^verbatim>\<open>sign_transaction_v2\<close> returns the reference it was given. Of the
  object behind it, the fields format, last_tx, owner, tags, target, quantity, data, reward
  and data_size keep their values, and every other object of the heap is untouched. The
  three fields data_root, signature and id are written: the data root is recomputed from
  the data field (or is the empty string), the signature is the base64url encoding of the
  signature of the deep hash and the id that of its SHA-256 digest, so that the heap after
  the call is the heap before it with exactly these three assignments. Whatever data root
  the caller supplied makes no difference to the result.
\<close>

theorem sign_transaction_v2_frame:
  assumes "fst (sign_transaction_v2 X r k h) = Inr r'"
  shows "r' = r
       \<and> format (snd (sign_transaction_v2 X r k h) r) = format (h r)
       \<and> last_tx (snd (sign_transaction_v2 X r k h) r) = last_tx (h r)
       \<and> owner (snd (sign_transaction_v2 X r k h) r) = owner (h r)
       \<and> tags (snd (sign_transaction_v2 X r k h) r) = tags (h r)
       \<and> target (snd (sign_transaction_v2 X r k h) r) = target (h r)
       \<and> quantity (snd (sign_transaction_v2 X r k h) r) = quantity (h r)
       \<and> data (snd (sign_transaction_v2 X r k h) r) = data (h r)
       \<and> reward (snd (sign_transaction_v2 X r k h) r) = reward (h r)
       \<and> data_size (snd (sign_transaction_v2 X r k h) r) = data_size (h r)
       \<and> (\<forall>r2. r2 \<noteq> r \<longrightarrow> snd (sign_transaction_v2 X r k h) r2 = h r2)
       \<and> (if data (h r) \<noteq> []
          then \<exists>data_bytes. base64url_decode (data (h r)) = Inr data_bytes
                 \<and> data_root (snd (sign_transaction_v2 X r k h) r)
                     = base64url_encode (sha256 X data_bytes)
          else data_root (snd (sign_transaction_v2 X r k h) r) = [])
       \<and> (\<forall>x. sign_transaction_v2 X r k (h(r := (h r)\<lparr>data_root := x\<rparr>))
                = sign_transaction_v2 X r k h)
       \<and> (\<exists>dd sg.
             deep_hash_transaction_v2 X
               ((h r)\<lparr>data_root := data_root (snd (sign_transaction_v2 X r k h) r)\<rparr>) = Inr dd
           \<and> private_key_sign X k dd PKCS1v15 SHA384 = Inr sg
           \<and> signature (snd (sign_transaction_v2 X r k h) r) = base64url_encode sg
           \<and> id' (snd (sign_transaction_v2 X r k h) r) = base64url_encode (sha256 X sg)
           \<and> snd (sign_transaction_v2 X r k h) =
               h(r := (h r)\<lparr>data_root := data_root (snd (sign_transaction_v2 X r k h) r),
                            signature := base64url_encode sg,
                            id' := base64url_encode (sha256 X sg)\<rparr>))"
proof -
  from sign_transaction_v2_success [OF assms] obtain root dd sg where
    root: "if data (h r) \<noteq> []
           then \<exists>data_bytes. base64url_decode (data (h r)) = Inr data_bytes
                  \<and> root = base64url_encode (sha256 X data_bytes)
           else root = []"
    and r': "r' = r"
    and dd: "deep_hash_transaction_v2 X ((h r)\<lparr>data_root := root\<rparr>) = Inr dd"
    and sg: "private_key_sign X k dd PKCS1v15 SHA384 = Inr sg"
    and h': "snd (sign_transaction_v2 X r k h) =
               h(r := (h r)\<lparr>data_root := root, signature := base64url_encode sg,
                            id' := base64url_encode (sha256 X sg)\<rparr>)"
    by blast
  have written: "\<exists>dd sg.
             deep_hash_transaction_v2 X
               ((h r)\<lparr>data_root := data_root (snd (sign_transaction_v2 X r k h) r)\<rparr>) = Inr dd
           \<and> private_key_sign X k dd PKCS1v15 SHA384 = Inr sg
           \<and> signature (snd (sign_transaction_v2 X r k h) r) = base64url_encode sg
           \<and> id' (snd (sign_transaction_v2 X r k h) r) = base64url_encode (sha256 X sg)
           \<and> snd (sign_transaction_v2 X r k h) =
               h(r := (h r)\<lparr>data_root := data_root (snd (sign_transaction_v2 X r k h) r),
                            signature := base64url_encode sg,
                            id' := base64url_encode (sha256 X sg)\<rparr>)"
    using dd sg by (intro exI [of _ dd] exI [of _ sg]) (simp add: h')
  have ok: "\<not> (\<exists>e. data (h r) \<noteq> [] \<and> base64url_decode (data (h r)) = Inl e)"
    using root by (auto split: if_splits)
  have same: "sign_transaction_v2 X r k (h(r := (h r)\<lparr>data_root := x\<rparr>))
                = sign_transaction_v2 X r k h" for x
    using ok by (simp only: sign_transaction_v2_data_root if_False) simp
  have frame: "r' = r
       \<and> format (snd (sign_transaction_v2 X r k h) r) = format (h r)
       \<and> last_tx (snd (sign_transaction_v2 X r k h) r) = last_tx (h r)
       \<and> owner (snd (sign_transaction_v2 X r k h) r) = owner (h r)
       \<and> tags (snd (sign_transaction_v2 X r k h) r) = tags (h r)
       \<and> target (snd (sign_transaction_v2 X r k h) r) = target (h r)
       \<and> quantity (snd (sign_transaction_v2 X r k h) r) = quantity (h r)
       \<and> data (snd (sign_transaction_v2 X r k h) r) = data (h r)
       \<and> reward (snd (sign_transaction_v2 X r k h) r) = reward (h r)
       \<and> data_size (snd (sign_transaction_v2 X r k h) r) = data_size (h r)
       \<and> (\<forall>r2. r2 \<noteq> r \<longrightarrow> snd (sign_transaction_v2 X r k h) r2 = h r2)
       \<and> (if data (h r) \<noteq> []
          then \<exists>data_bytes. base64url_decode (data (h r)) = Inr data_bytes
                 \<and> data_root (snd (sign_transaction_v2 X r k h) r)
                     = base64url_encode (sha256 X data_bytes)
          else data_root (snd (sign_transaction_v2 X r k h) r) = [])"
    using root r' by (simp add: h' split: if_splits)
  from frame same written show ?thesis by blast
qed

theorem sign_transaction_v2_frame_witness:
  "fst (sign_transaction_v2 example_externals 0 () (\<lambda>r. example_tx)) = Inr 0
   \<and> format (snd (sign_transaction_v2 example_externals 0 () (\<lambda>r. example_tx)) 0) = 2
   \<and> data_size (snd (sign_transaction_v2 example_externals 0 () (\<lambda>r. example_tx)) 0) = ''5''
   \<and> snd (sign_transaction_v2 example_externals 0 () (\<lambda>r. example_tx)) 1 = example_tx
   \<and> sign_transaction_v2 example_externals 0 ()
        ((\<lambda>r. example_tx)(0 := example_tx\<lparr>data_root := ''stale''\<rparr>))
      = sign_transaction_v2 example_externals 0 () (\<lambda>r. example_tx)
   \<and> signature example_tx = []
   \<and> id' example_tx = []
   \<and> signature (snd (sign_transaction_v2 example_externals 0 () (\<lambda>r. example_tx)) 0)
      = base64url_encode [2, 2, 65]
   \<and> id' (snd (sign_transaction_v2 example_externals 0 () (\<lambda>r. example_tx)) 0)
      = base64url_encode (hashlib_sha256 example_externals [2, 2, 65])"
proof -
  have h: "fst (sign_transaction_v2 example_externals 0 () (\<lambda>r. example_tx)) = Inr 0"
    by code_simp
  have f: "format example_tx = 2" "data_size example_tx = ''5''"
    "signature example_tx = []" "id' example_tx = []"
    by code_simp+
  have w: "signature (snd (sign_transaction_v2 example_externals 0 () (\<lambda>r. example_tx)) 0)
      = base64url_encode [2, 2, 65]"
    "id' (snd (sign_transaction_v2 example_externals 0 () (\<lambda>r. example_tx)) 0)
      = base64url_encode (hashlib_sha256 example_externals [2, 2, 65])"
    by code_simp+
  from h f w sign_transaction_v2_frame [OF h] show ?thesis by simp
qed

text \<open>
  C4, as stated, fails: with a data field that is not decodable the function raises
  \<^verbatim>\<open>binascii.Error\<close>; the program has no \<^verbatim>\<open>SigningError\<close>.
\<close>

theorem sign_transaction_v2_raises_counterexample:
  "fst (sign_transaction_v2 example_externals 0 () (\<lambda>r. example_tx\<lparr>data := ''a''\<rparr>))
     = Inl binascii_Error
   \<and> class_name binascii_Error \<noteq> ''SigningError''"
  by code_simp

text \<open>
  C4, amended: either \<^verbatim>\<open>sign_transaction_v2\<close> returns, and then the signature field is the
  base64url encoding of the raw signature and the id field that of its SHA-256 digest, each
  non-empty when the encoded bytes are; or it raises, and then the signature and id fields
  are what they were on entry.
\<close>

theorem sign_transaction_v2_both_or_neither:
  "case fst (sign_transaction_v2 X r k h) of
     Inr r' \<Rightarrow>
       (\<exists>sg. signature (snd (sign_transaction_v2 X r k h) r) = base64url_encode sg
            \<and> id' (snd (sign_transaction_v2 X r k h) r) = base64url_encode (sha256 X sg)
            \<and> (sg \<noteq> [] \<longrightarrow> signature (snd (sign_transaction_v2 X r k h) r) \<noteq> [])
            \<and> (sha256 X sg \<noteq> [] \<longrightarrow> id' (snd (sign_transaction_v2 X r k h) r) \<noteq> []))
   | Inl e \<Rightarrow>
       signature (snd (sign_transaction_v2 X r k h) r) = signature (h r)
     \<and> id' (snd (sign_transaction_v2 X r k h) r) = id' (h r)"
proof (cases "fst (sign_transaction_v2 X r k h)")
  case (Inl e)
  then show ?thesis using sign_transaction_v2_failure [OF Inl] by simp
next
  case (Inr r')
  from sign_transaction_v2_success [OF Inr] show ?thesis
    by (auto simp add: Inr base64url_encode_Nil_iff)
qed

theorem sign_transaction_v2_both_or_neither_witness:
  "fst (sign_transaction_v2 example_externals 0 () (\<lambda>r. example_tx)) = Inr 0
   \<and> signature (snd (sign_transaction_v2 example_externals 0 () (\<lambda>r. example_tx)) 0) \<noteq> []
   \<and> id' (snd (sign_transaction_v2 example_externals 0 () (\<lambda>r. example_tx)) 0) \<noteq> []
   \<and> fst (sign_transaction_v2 example_externals 0 ()
           (\<lambda>r. example_tx\<lparr>data := ''a'', signature := ''old''\<rparr>)) = Inl binascii_Error
   \<and> signature (snd (sign_transaction_v2 example_externals 0 ()
           (\<lambda>r. example_tx\<lparr>data := ''a'', signature := ''old''\<rparr>)) 0) = ''old''
   \<and> id' (snd (sign_transaction_v2 example_externals 0 ()
           (\<lambda>r. example_tx\<lparr>data := ''a'', signature := ''old''\<rparr>)) 0) = id' example_tx"
proof -
  have h: "fst (sign_transaction_v2 example_externals 0 () (\<lambda>r. example_tx)) = Inr 0"
    by code_simp
  have g: "fst (sign_transaction_v2 example_externals 0 ()
           (\<lambda>r. example_tx\<lparr>data := ''a'', signature := ''old''\<rparr>)) = Inl binascii_Error"
    by code_simp
  have s: "signature (snd (sign_transaction_v2 example_externals 0 () (\<lambda>r. example_tx)) 0) \<noteq> []"
    "id' (snd (sign_transaction_v2 example_externals 0 () (\<lambda>r. example_tx)) 0) \<noteq> []"
    by code_simp+
  from h g s
    sign_transaction_v2_both_or_neither [of example_externals 0 "()"
      "\<lambda>r. example_tx\<lparr>data := ''a'', signature := ''old''\<rparr>"]
  show ?thesis by simp
qed

section \<open>The network client\<close>

text \<open>
  C10: when the node answers with a status code other than 200, \<^verbatim>\<open>get_anchor\<close> returns the
  empty string and \<^verbatim>\<open>get_price\<close> returns the string \<^verbatim>\<open>0\<close>; neither raises.
\<close>

theorem fetchers_default_on_failure_status:
  "(requests_get (node_url @ ''/tx_anchor'') = Inr resp \<and> status_code resp \<noteq> 200
      \<longrightarrow> get_anchor requests_get node_url = Inr [])
   \<and> (requests_get (node_url @ ''/price/'' @ str_int n) = Inr resp \<and> status_code resp \<noteq> 200
      \<longrightarrow> get_price requests_get node_url n = Inr ''0'')"
  by (simp add: get_anchor_def get_price_def)

theorem fetchers_default_on_failure_status_witness:
  "(\<lambda>u. Inr \<lparr>status_code = 404, body_text = ''Not Found''\<rparr>) (''http://localhost:1984'' @ ''/tx_anchor'')
     = (Inr \<lparr>status_code = 404, body_text = ''Not Found''\<rparr> :: exn + response)
   \<and> status_code \<lparr>status_code = 404, body_text = ''Not Found''\<rparr> \<noteq> 200
   \<and> get_anchor (\<lambda>u. Inr \<lparr>status_code = 404, body_text = ''Not Found''\<rparr>) ''http://localhost:1984''
       = Inr []
   \<and> get_price (\<lambda>u. Inr \<lparr>status_code = 404, body_text = ''Not Found''\<rparr>) ''http://localhost:1984'' 39
       = Inr ''0''"
  using fetchers_default_on_failure_status
    [of "\<lambda>u. Inr \<lparr>status_code = 404, body_text = ''Not Found''\<rparr>" "''http://localhost:1984''"
        "\<lparr>status_code = 404, body_text = ''Not Found''\<rparr>" 39]
  by simp

section \<open>The canonical hash builder\<close>

lemma deep_hash_transaction_v2_with_target:
  assumes "base64url_decode (owner tx) = Inr owner_bytes"
    and "(if last_tx tx \<noteq> [] then base64url_decode (last_tx tx) else Inr []) = Inr last_tx_bytes"
    and "base64url_decode (data_root tx) = Inr data_root_bytes"
    and "target tx \<noteq> []"
    and "base64url_decode (target tx) = Inr target_bytes"
  shows "deep_hash_transaction_v2 X tx =
     Inr (hashlib_sha384 X (concat (map (\<lambda>(label, chunk). hashlib_sha384 X (label @ chunk))
       [(b_lit ''ARWEAVE_FORMAT'', encode_utf8 (str_int (format tx))),
        (b_lit ''ARWEAVE_OWNER'', owner_bytes),
        (b_lit ''ARWEAVE_REWARD'', encode_utf8 (reward tx)),
        (b_lit ''ARWEAVE_LAST_TX'', last_tx_bytes),
        (b_lit ''ARWEAVE_DATA_ROOT'', data_root_bytes),
        (b_lit ''ARWEAVE_DATA_SIZE'', encode_utf8 (data_size tx)),
        (b_lit ''ARWEAVE_TAGS'', encode_utf8 (json_dumps X (tags tx))),
        (b_lit ''ARWEAVE_TARGET'', target_bytes),
        (b_lit ''ARWEAVE_QUANTITY'', encode_utf8 (quantity tx))])))"
  using assms
  by (simp add: deep_hash_transaction_v2_def labelled_chunks_def Let_def)

lemma deep_hash_transaction_v2_without_target:
  assumes "base64url_decode (owner tx) = Inr owner_bytes"
    and "(if last_tx tx \<noteq> [] then base64url_decode (last_tx tx) else Inr []) = Inr last_tx_bytes"
    and "base64url_decode (data_root tx) = Inr data_root_bytes"
    and "target tx = []"
  shows "deep_hash_transaction_v2 X tx =
     Inr (hashlib_sha384 X (concat (map (\<lambda>(label, chunk). hashlib_sha384 X (label @ chunk))
       [(b_lit ''ARWEAVE_FORMAT'', encode_utf8 (str_int (format tx))),
        (b_lit ''ARWEAVE_OWNER'', owner_bytes),
        (b_lit ''ARWEAVE_REWARD'', encode_utf8 (reward tx)),
        (b_lit ''ARWEAVE_LAST_TX'', last_tx_bytes),
        (b_lit ''ARWEAVE_DATA_ROOT'', data_root_bytes),
        (b_lit ''ARWEAVE_DATA_SIZE'', encode_utf8 (data_size tx)),
        (b_lit ''ARWEAVE_TAGS'', encode_utf8 (json_dumps X (tags tx))),
        ([], []),
        (b_lit ''ARWEAVE_QUANTITY'', encode_utf8 (quantity tx))])))"
  using assms
  by (simp add: deep_hash_transaction_v2_def labelled_chunks_def Let_def b_lit_def)


text \<open>
  C1, as stated, fails on the order of the fields: the labels of the list the loop runs
  over, for a record with a target, come in the order format, owner, reward, last_tx,
  data_root, data_size, tags, target, quantity, which is not the order format, owner,
  target, quantity, reward, last_tx, tags, data_size, data_root.
\<close>

theorem deep_hash_field_order_counterexample:
  "map_sum id (map fst) (labelled_chunks example_externals (example_tx\<lparr>target := ''AQAB''\<rparr>))
     = Inr (map (\<lambda>s. Bytes (b_lit s))
         [''ARWEAVE_FORMAT'', ''ARWEAVE_OWNER'', ''ARWEAVE_REWARD'', ''ARWEAVE_LAST_TX'',
          ''ARWEAVE_DATA_ROOT'', ''ARWEAVE_DATA_SIZE'', ''ARWEAVE_TAGS'', ''ARWEAVE_TARGET'',
          ''ARWEAVE_QUANTITY''])
   \<and> map_sum id (map fst) (labelled_chunks example_externals (example_tx\<lparr>target := ''AQAB''\<rparr>))
     \<noteq> Inr (map (\<lambda>s. Bytes (b_lit s))
         [''ARWEAVE_FORMAT'', ''ARWEAVE_OWNER'', ''ARWEAVE_TARGET'', ''ARWEAVE_QUANTITY'',
          ''ARWEAVE_REWARD'', ''ARWEAVE_LAST_TX'', ''ARWEAVE_TAGS'', ''ARWEAVE_DATA_SIZE'',
          ''ARWEAVE_DATA_ROOT''])"
  by code_simp

text \<open>
  C1, amended: for every record with a non-empty target whose owner, last_tx, data_root and
  target fields decode, \<^verbatim>\<open>deep_hash_transaction_v2\<close> computes for each field, in the order
  format, owner, reward (the fee), last_tx, data_root, data_size, tags (as \<^verbatim>\<open>json.dumps\<close>
  writes them), target, quantity, the SHA-384 digest of the field's label followed by the
  field's bytes, concatenates these digests in that order, and returns the SHA-384 digest
  of the concatenation.
\<close>

theorem deep_hash_transaction_v2_order:
  assumes "base64url_decode (owner tx) = Inr owner_bytes"
    and "(if last_tx tx \<noteq> [] then base64url_decode (last_tx tx) else Inr []) = Inr last_tx_bytes"
    and "base64url_decode (data_root tx) = Inr data_root_bytes"
    and "target tx \<noteq> []"
    and "base64url_decode (target tx) = Inr target_bytes"
  shows "deep_hash_transaction_v2 X tx =
     Inr (hashlib_sha384 X (concat (map (\<lambda>(label, chunk). hashlib_sha384 X (label @ chunk))
       [(b_lit ''ARWEAVE_FORMAT'', encode_utf8 (str_int (format tx))),
        (b_lit ''ARWEAVE_OWNER'', owner_bytes),
        (b_lit ''ARWEAVE_REWARD'', encode_utf8 (reward tx)),
        (b_lit ''ARWEAVE_LAST_TX'', last_tx_bytes),
        (b_lit ''ARWEAVE_DATA_ROOT'', data_root_bytes),
        (b_lit ''ARWEAVE_DATA_SIZE'', encode_utf8 (data_size tx)),
        (b_lit ''ARWEAVE_TAGS'', encode_utf8 (json_dumps X (tags tx))),
        (b_lit ''ARWEAVE_TARGET'', target_bytes),
        (b_lit ''ARWEAVE_QUANTITY'', encode_utf8 (quantity tx))])))"
  using assms by (rule deep_hash_transaction_v2_with_target)

theorem deep_hash_transaction_v2_order_witness:
  "base64url_decode (owner (example_tx\<lparr>target := ''AQAB''\<rparr>)) = Inr [1, 0, 1]
   \<and> (if last_tx (example_tx\<lparr>target := ''AQAB''\<rparr>) \<noteq> []
       then base64url_decode (last_tx (example_tx\<lparr>target := ''AQAB''\<rparr>)) else Inr [])
      = Inr [105, 183]
   \<and> base64url_decode (data_root (example_tx\<lparr>target := ''AQAB''\<rparr>)) = Inr []
   \<and> target (example_tx\<lparr>target := ''AQAB''\<rparr>) \<noteq> []
   \<and> base64url_decode (target (example_tx\<lparr>target := ''AQAB''\<rparr>)) = Inr [1, 0, 1]
   \<and> deep_hash_transaction_v2 example_externals (example_tx\<lparr>target := ''AQAB''\<rparr>)
      = Inr [2, 2, 65]"
proof -
  have a: "base64url_decode (owner (example_tx\<lparr>target := ''AQAB''\<rparr>)) = Inr [1, 0, 1]"
    by code_simp
  have b: "(if last_tx (example_tx\<lparr>target := ''AQAB''\<rparr>) \<noteq> []
       then base64url_decode (last_tx (example_tx\<lparr>target := ''AQAB''\<rparr>)) else Inr [])
      = Inr [105, 183]"
    by code_simp
  have c: "base64url_decode (data_root (example_tx\<lparr>target := ''AQAB''\<rparr>)) = Inr []"
    by code_simp
  have d: "target (example_tx\<lparr>target := ''AQAB''\<rparr>) \<noteq> []"
    by simp
  have e: "base64url_decode (target (example_tx\<lparr>target := ''AQAB''\<rparr>)) = Inr [1, 0, 1]"
    by code_simp
  have v: "deep_hash_transaction_v2 example_externals (example_tx\<lparr>target := ''AQAB''\<rparr>)
      = Inr [2, 2, 65]"
    by code_simp
  from a b c d e v deep_hash_transaction_v2_order [OF a b c d e, of example_externals]
  show ?thesis by simp
qed

text \<open>
  C2: what the code does for a record whose target is the empty string. The placeholder
  pair of two empty byte strings stays in the list, the loop's test for a tuple looks at
  its second component and fails, and the digest of the empty label followed by the empty
  chunk is concatenated between the digest for the tags and the digest for the quantity:
  the target does contribute an entry.
\<close>

theorem deep_hash_transaction_v2_empty_target:
  assumes "base64url_decode (owner tx) = Inr owner_bytes"
    and "(if last_tx tx \<noteq> [] then base64url_decode (last_tx tx) else Inr []) = Inr last_tx_bytes"
    and "base64url_decode (data_root tx) = Inr data_root_bytes"
    and "target tx = []"
  shows "deep_hash_transaction_v2 X tx =
     Inr (hashlib_sha384 X (concat (map (\<lambda>(label, chunk). hashlib_sha384 X (label @ chunk))
       [(b_lit ''ARWEAVE_FORMAT'', encode_utf8 (str_int (format tx))),
        (b_lit ''ARWEAVE_OWNER'', owner_bytes),
        (b_lit ''ARWEAVE_REWARD'', encode_utf8 (reward tx)),
        (b_lit ''ARWEAVE_LAST_TX'', last_tx_bytes),
        (b_lit ''ARWEAVE_DATA_ROOT'', data_root_bytes),
        (b_lit ''ARWEAVE_DATA_SIZE'', encode_utf8 (data_size tx)),
        (b_lit ''ARWEAVE_TAGS'', encode_utf8 (json_dumps X (tags tx))),
        ([], []),
        (b_lit ''ARWEAVE_QUANTITY'', encode_utf8 (quantity tx))])))"
  using assms by (rule deep_hash_transaction_v2_without_target)

theorem deep_hash_transaction_v2_empty_target_witness:
  "base64url_decode (owner example_tx) = Inr [1, 0, 1]
   \<and> (if last_tx example_tx \<noteq> [] then base64url_decode (last_tx example_tx) else Inr [])
      = Inr [105, 183]
   \<and> base64url_decode (data_root example_tx) = Inr []
   \<and> target example_tx = []
   \<and> deep_hash_transaction_v2 example_externals example_tx = Inr [2, 2, 65]
   \<and> map_sum id (\<lambda>chunks. (length chunks, chunks ! 7))
        (labelled_chunks example_externals example_tx) = Inr (9, (Bytes [], Bytes []))
   \<and> hash_loop example_externals [] [(Bytes [], Bytes [])]
      = Inr (hashlib_sha384 example_externals [])"
proof -
  have a: "base64url_decode (owner example_tx) = Inr [1, 0, 1]"
    by code_simp
  have b: "(if last_tx example_tx \<noteq> [] then base64url_decode (last_tx example_tx) else Inr [])
      = Inr [105, 183]"
    by code_simp
  have c: "base64url_decode (data_root example_tx) = Inr []"
    by code_simp
  have d: "target example_tx = []"
    by code_simp
  have v: "deep_hash_transaction_v2 example_externals example_tx = Inr [2, 2, 65]"
    by code_simp
  have l: "map_sum id (\<lambda>chunks. (length chunks, chunks ! 7))
        (labelled_chunks example_externals example_tx) = Inr (9, (Bytes [], Bytes []))"
    by code_simp
  have k: "hash_loop example_externals [] [(Bytes [], Bytes [])]
      = Inr (hashlib_sha384 example_externals [])"
    by simp
  from a b c d v l k deep_hash_transaction_v2_empty_target [OF a b c d, of example_externals]
  show ?thesis by simp
qed

section \<open>The key loader\<close>

lemma example_jwk_decode: "base64url_decode ''Dw'' = Inr [15]" "base64url_decode ''AQAB'' = Inr [1, 0, 1]"
  "base64url_decode ''AQ'' = Inr [1]" "base64url_decode ''Aw'' = Inr [3]"
  "base64url_decode ''BA'' = Inr [4]"
  by code_simp+

lemma example_jwk_from_bytes: "int_from_bytes_big [15] = 15" "int_from_bytes_big [1, 0, 1] = 65537"
  "int_from_bytes_big [1] = 1" "int_from_bytes_big [3] = 3" "int_from_bytes_big [4] = 4"
  by (simp_all add: int_from_bytes_big_def)

lemma example_jwk_ints:
  "jwk_int example_jwk ''n'' = Inr 15" "jwk_int example_jwk ''e'' = Inr 65537"
  "jwk_int example_jwk ''d'' = Inr 1" "jwk_int example_jwk ''p'' = Inr 3"
  "jwk_int example_jwk ''q'' = Inr 4" "jwk_int example_jwk ''dp'' = Inr 1"
  "jwk_int example_jwk ''dq'' = Inr 1" "jwk_int example_jwk ''qi'' = Inr 1"
  by (simp_all add: jwk_int_def getitem_def example_jwk_def example_jwk_decode example_jwk_from_bytes)

text \<open>
  C5, as stated, fails: \<^verbatim>\<open>load_jwk\<close> compares nothing itself. With a constructor that
  refuses a modulus that is not the product of the primes, as the library's does with
  \<^verbatim>\<open>ValueError\<close>, that exception is what \<^verbatim>\<open>load_jwk\<close> raises; with a constructor that accepts
  every input, \<^verbatim>\<open>load_jwk\<close> returns the inconsistent numbers as a key.
\<close>

theorem load_jwk_consistency_counterexample:
  "load_jwk (\<lambda>k. if rsa_p k * rsa_q k \<noteq> pub_n (public_numbers k) then Inl ValueError else Inr k)
     example_jwk = Inl ValueError
   \<and> class_name ValueError \<noteq> ''KeyConsistencyError''
   \<and> map_sum id fst (load_jwk Inr example_jwk)
     = Inr \<lparr>rsa_p = 3, rsa_q = 4, rsa_d = 1, rsa_dmp1 = 1, rsa_dmq1 = 1, rsa_iqmp = 1,
            public_numbers = \<lparr>pub_e = 65537, pub_n = 15\<rparr>\<rparr>"
  by (simp add: load_jwk_def example_jwk_ints)

text \<open>
  C5, amended: \<^verbatim>\<open>load_jwk\<close> decodes the eight numbers and hands them to the library's
  constructor; it raises exactly what the constructor raises for these numbers and returns
  the constructor's key otherwise, whether or not the modulus is the product of the primes.
  When it raises, \<^verbatim>\<open>main\<close> ends with that exception before anything is fetched, hashed or
  signed.
\<close>

theorem load_jwk_delegates:
  assumes "jwk_int jwk ''n'' = Inr n" "jwk_int jwk ''e'' = Inr e" "jwk_int jwk ''d'' = Inr d"
    and "jwk_int jwk ''p'' = Inr p" "jwk_int jwk ''q'' = Inr q" "jwk_int jwk ''dp'' = Inr dp"
    and "jwk_int jwk ''dq'' = Inr dq" "jwk_int jwk ''qi'' = Inr qi"
  shows "load_jwk private_key jwk =
           (case private_key
                   \<lparr>rsa_p = p, rsa_q = q, rsa_d = d, rsa_dmp1 = dp, rsa_dmq1 = dq, rsa_iqmp = qi,
                    public_numbers = \<lparr>pub_e = e, pub_n = n\<rparr>\<rparr> of
              Inl ex \<Rightarrow> Inl ex
            | Inr privkey \<Rightarrow> Inr (privkey, jwk))
       \<and> (\<forall>ex. load_jwk private_key jwk = Inl ex \<longrightarrow>
             main X private_key requests_get jwk data_bytes new_ref h = (Inl ex, h))"
  using assms by (simp add: load_jwk_def main_def split: sum.splits)

theorem load_jwk_delegates_witness:
  "jwk_int example_jwk ''n'' = Inr 15 \<and> jwk_int example_jwk ''e'' = Inr 65537
   \<and> jwk_int example_jwk ''d'' = Inr 1 \<and> jwk_int example_jwk ''p'' = Inr 3
   \<and> jwk_int example_jwk ''q'' = Inr 4 \<and> jwk_int example_jwk ''dp'' = Inr 1
   \<and> jwk_int example_jwk ''dq'' = Inr 1 \<and> jwk_int example_jwk ''qi'' = Inr 1
   \<and> load_jwk (\<lambda>k. if rsa_p k * rsa_q k \<noteq> pub_n (public_numbers k) then Inl ValueError
                    else Inr ()) example_jwk = Inl ValueError
   \<and> main example_externals
        (\<lambda>k. if rsa_p k * rsa_q k \<noteq> pub_n (public_numbers k) then Inl ValueError else Inr ())
        (\<lambda>u. Inl RequestException) example_jwk (b_lit ''hello'') 0 (\<lambda>r. example_tx)
      = (Inl ValueError, \<lambda>r. example_tx)"
  using example_jwk_ints
    load_jwk_delegates [OF example_jwk_ints,
      of "\<lambda>k. if rsa_p k * rsa_q k \<noteq> pub_n (public_numbers k) then Inl ValueError else Inr ()"
         example_externals "\<lambda>u. Inl RequestException" "b_lit ''hello''" 0 "\<lambda>r. example_tx"]
  by simp

section \<open>The transaction builder\<close>

text \<open>
  C7, as stated, fails: a record whose quantity is \<^verbatim>\<open>abc\<close>, whose fee is \<^verbatim>\<open>-1\<close> and whose
  data_size is \<^verbatim>\<open>999\<close> for a payload of five bytes is signed without an error.
\<close>

theorem sign_transaction_v2_unvalidated_counterexample:
  "fst (sign_transaction_v2 example_externals 0 ()
          (\<lambda>r. example_tx\<lparr>quantity := ''abc'', reward := ''-1'', data_size := ''999''\<rparr>))
     = Inr 0"
  by code_simp

lemma sign_transaction_v2_returns:
  assumes "base64url_decode (owner (h r)) = Inr ob"
    and "(if last_tx (h r) \<noteq> [] then base64url_decode (last_tx (h r)) else Inr []) = Inr lb"
    and "(if target (h r) \<noteq> [] then base64url_decode (target (h r)) else Inr []) = Inr tb"
    and "(if data (h r) \<noteq> [] then base64url_decode (data (h r)) else Inr []) = Inr db"
    and "\<And>dd. \<exists>sg. private_key_sign X k dd PKCS1v15 SHA384 = Inr sg"
  shows "fst (sign_transaction_v2 X r k h) = Inr r"
proof -
  define root where "root = (if data (h r) \<noteq> [] then base64url_encode (sha256 X db) else [])"
  have rt: "base64url_decode root = Inr (if data (h r) \<noteq> [] then sha256 X db else [])"
    by (simp add: root_def base64url_decode_encode base64url_decode_Nil)
  have "\<exists>dd. deep_hash_transaction_v2 X ((h r)\<lparr>data_root := root\<rparr>) = Inr dd"
  proof (cases "target (h r) = []")
    case True
    show ?thesis
      by (rule exI,
          rule deep_hash_transaction_v2_without_target
            [where owner_bytes = ob and last_tx_bytes = lb])
         (use assms(1,2) rt True in \<open>simp_all split: if_splits\<close>)
  next
    case False
    show ?thesis
      by (rule exI,
          rule deep_hash_transaction_v2_with_target
            [where owner_bytes = ob and last_tx_bytes = lb and target_bytes = tb])
         (use assms(1,2,3) rt False in \<open>simp_all split: if_splits\<close>)
  qed
  then obtain dd where dd: "deep_hash_transaction_v2 X ((h r)\<lparr>data_root := root\<rparr>) = Inr dd" ..
  from assms(5) obtain sg where sg: "private_key_sign X k dd PKCS1v15 SHA384 = Inr sg" ..
  show ?thesis
  proof (cases "data (h r) = []")
    case True
    with dd sg show ?thesis
      by (simp add: sign_transaction_v2_def root_def Let_def)
  next
    case False
    with dd sg assms(4) show ?thesis
      by (simp add: sign_transaction_v2_def root_def Let_def)
  qed
qed

text \<open>
  C7, amended: \<^verbatim>\<open>sign_transaction_v2\<close> validates neither quantity, fee nor data_size. When
  the owner, the anchor, the target and the data of a record decode and the key signs, the
  record is signed whatever strings these three fields hold.
\<close>

theorem sign_transaction_v2_no_validation:
  assumes "base64url_decode (owner (h r)) = Inr ob"
    and "(if last_tx (h r) \<noteq> [] then base64url_decode (last_tx (h r)) else Inr []) = Inr lb"
    and "(if target (h r) \<noteq> [] then base64url_decode (target (h r)) else Inr []) = Inr tb"
    and "(if data (h r) \<noteq> [] then base64url_decode (data (h r)) else Inr []) = Inr db"
    and "\<And>dd. \<exists>sg. private_key_sign X k dd PKCS1v15 SHA384 = Inr sg"
  shows "fst (sign_transaction_v2 X r k
                (h(r := (h r)\<lparr>quantity := q_str, reward := fee_str, data_size := size_str\<rparr>)))
           = Inr r"
  by (rule sign_transaction_v2_returns [where ob = ob and lb = lb and tb = tb and db = db])
     (use assms in \<open>simp_all split: if_splits\<close>)

theorem sign_transaction_v2_no_validation_witness:
  "base64url_decode (owner ((\<lambda>r. example_tx) 0)) = Inr [1, 0, 1]
   \<and> (if last_tx ((\<lambda>r. example_tx) 0) \<noteq> []
       then base64url_decode (last_tx ((\<lambda>r. example_tx) 0)) else Inr []) = Inr [105, 183]
   \<and> (if target ((\<lambda>r. example_tx) 0) \<noteq> []
       then base64url_decode (target ((\<lambda>r. example_tx) 0)) else Inr []) = Inr []
   \<and> (if data ((\<lambda>r. example_tx) 0) \<noteq> []
       then base64url_decode (data ((\<lambda>r. example_tx) 0)) else Inr [])
      = Inr [104, 101, 108, 108, 111]
   \<and> (\<forall>dd. \<exists>sg. private_key_sign example_externals () dd PKCS1v15 SHA384 = Inr sg)
   \<and> fst (sign_transaction_v2 example_externals 0 ()
             ((\<lambda>r. example_tx)
                (0 := ((\<lambda>r. example_tx) 0)
                   \<lparr>quantity := ''abc'', reward := ''-1'', data_size := ''999''\<rparr>)))
      = Inr 0"
proof -
  have a: "base64url_decode (owner ((\<lambda>r. example_tx) 0)) = Inr [1, 0, 1]"
    by code_simp
  have b: "(if last_tx ((\<lambda>r. example_tx) 0) \<noteq> []
       then base64url_decode (last_tx ((\<lambda>r. example_tx) 0)) else Inr []) = Inr [105, 183]"
    by code_simp
  have c: "(if target ((\<lambda>r. example_tx) 0) \<noteq> []
       then base64url_decode (target ((\<lambda>r. example_tx) 0)) else Inr []) = Inr []"
    by code_simp
  have d: "(if data ((\<lambda>r. example_tx) 0) \<noteq> []
       then base64url_decode (data ((\<lambda>r. example_tx) 0)) else Inr [])
      = Inr [104, 101, 108, 108, 111]"
    by code_simp
  have e: "\<exists>sg. private_key_sign example_externals () dd PKCS1v15 SHA384 = Inr sg" for dd
    by (simp add: example_externals_def)
  from a b c d e
    sign_transaction_v2_no_validation
      [OF a b c d e, where q_str = "''abc''" and fee_str = "''-1''" and size_str = "''999''"]
  show ?thesis by blast
qed

lemma sign_transaction_v2_sets_data_root:
  "data_root (snd (sign_transaction_v2 X r k h) r) =
     (if data (h r) = [] then []
      else case base64url_decode (data (h r)) of
             Inl e \<Rightarrow> data_root (h r)
           | Inr data_bytes \<Rightarrow> base64url_encode (sha256 X data_bytes))"
proof (cases "data (h r) = []")
  case True
  then show ?thesis
    by (auto simp add: sign_transaction_v2_def Let_def split: sum.splits)
next
  case False
  then show ?thesis
    by (cases "base64url_decode (data (h r))")
       (auto simp add: sign_transaction_v2_def Let_def split: sum.splits)
qed

lemma str_int_0: "str_int 0 = ''0''"
  by code_simp

lemma sign_transaction_v2_keeps_data_size:
  "data_size (snd (sign_transaction_v2 X r k h) r) = data_size (h r)"
proof (cases "data (h r) = []")
  case True
  then show ?thesis
    by (auto simp add: sign_transaction_v2_def Let_def split: sum.splits)
next
  case False
  then show ?thesis
    by (cases "base64url_decode (data (h r))")
       (auto simp add: sign_transaction_v2_def Let_def split: sum.splits)
qed

text \<open>
  C8, as stated, fails. \<^verbatim>\<open>sign_transaction_v2\<close> never writes the data size: a record with an
  empty data field and the data size \<^verbatim>\<open>5\<close> is signed and keeps \<^verbatim>\<open>5\<close>. And it is the data
  string, not the payload, that decides the data root: the data \<^verbatim>\<open>=\<close> decodes to the empty
  payload, yet the data root becomes the encoded digest of the empty byte string.
\<close>

theorem data_size_not_derived_counterexample:
  "data (example_tx\<lparr>data := [], data_size := ''5''\<rparr>) = []
   \<and> fst (sign_transaction_v2 example_externals 0 ()
            (\<lambda>r. example_tx\<lparr>data := [], data_size := ''5''\<rparr>)) = Inr 0
   \<and> data_size (snd (sign_transaction_v2 example_externals 0 ()
                       (\<lambda>r. example_tx\<lparr>data := [], data_size := ''5''\<rparr>)) 0) = ''5''
   \<and> data_size (snd (sign_transaction_v2 example_externals 0 ()
                       (\<lambda>r. example_tx\<lparr>data := [], data_size := ''5''\<rparr>)) 0) \<noteq> ''0''
   \<and> base64url_decode ''='' = Inr []
   \<and> fst (sign_transaction_v2 example_externals 0 () (\<lambda>r. example_tx\<lparr>data := ''=''\<rparr>))
      = Inr 0
   \<and> data_root (snd (sign_transaction_v2 example_externals 0 ()
                       (\<lambda>r. example_tx\<lparr>data := ''=''\<rparr>)) 0)
      = base64url_encode (hashlib_sha256 example_externals [])
   \<and> data_root (snd (sign_transaction_v2 example_externals 0 ()
                       (\<lambda>r. example_tx\<lparr>data := ''=''\<rparr>)) 0) \<noteq> []"
  by code_simp

text \<open>
  C8, amended: for every record, \<^verbatim>\<open>sign_transaction_v2\<close> sets the data root to the empty
  string when the data field is the empty string, and to the base64url encoding of the
  SHA-256 digest of the decoded data when the data field is not empty and decodes; it
  leaves the data size as the caller supplied it, also when it raises. The record \<^verbatim>\<open>main\<close>
  builds from a payload has the decimal length of the payload as data size, which is \<^verbatim>\<open>0\<close>
  for the empty payload; signing it gives the data root \<^verbatim>\<open>""\<close> for the empty payload and
  the encoded SHA-256 digest of the payload otherwise.
\<close>

theorem sign_transaction_v2_data_root_and_size:
  "(data (h r) = [] \<longrightarrow> data_root (snd (sign_transaction_v2 X r k h) r) = [])
   \<and> (data (h r) \<noteq> [] \<and> base64url_decode (data (h r)) = Inr payload \<longrightarrow>
        data_root (snd (sign_transaction_v2 X r k h) r)
          = base64url_encode (hashlib_sha256 X payload))
   \<and> data_size (snd (sign_transaction_v2 X r k h) r) = data_size (h r)
   \<and> data_size (main_tx_fields anchor jwk_n fee payload) = str_int (int (length payload))
   \<and> data (main_tx_fields anchor jwk_n fee []) = []
   \<and> data_size (main_tx_fields anchor jwk_n fee []) = ''0''
   \<and> data_root (snd (sign_transaction_v2 X r k (h(r := main_tx_fields anchor jwk_n fee [])))
        r) = []
   \<and> (payload \<noteq> [] \<longrightarrow>
        data_root (snd (sign_transaction_v2 X r k
                         (h(r := main_tx_fields anchor jwk_n fee payload))) r)
          = base64url_encode (hashlib_sha256 X payload))"
  by (simp add: sign_transaction_v2_sets_data_root sign_transaction_v2_keeps_data_size
      main_tx_fields_def Let_def base64url_encode_Nil_iff base64url_decode_encode str_int_0
      sha256_def)

theorem sign_transaction_v2_data_root_and_size_witness:
  "data (main_tx_fields ''abc'' ''AQAB'' ''100'' []) = []
   \<and> data_size (main_tx_fields ''abc'' ''AQAB'' ''100'' []) = ''0''
   \<and> data_root (snd (sign_transaction_v2 example_externals 0 ()
                       ((\<lambda>r. example_tx)(0 := main_tx_fields ''abc'' ''AQAB'' ''100'' []))) 0) = []
   \<and> b_lit ''hello'' \<noteq> []
   \<and> data_root (snd (sign_transaction_v2 example_externals 0 ()
                       ((\<lambda>r. example_tx)
                          (0 := main_tx_fields ''abc'' ''AQAB'' ''100'' (b_lit ''hello'')))) 0)
       = base64url_encode (hashlib_sha256 example_externals (b_lit ''hello''))
   \<and> data_size (snd (sign_transaction_v2 example_externals 0 () (\<lambda>r. example_tx)) 0)
       = data_size ((\<lambda>r. example_tx) 0)"
  using sign_transaction_v2_data_root_and_size
    [of "\<lambda>r. example_tx" 0 example_externals "()" "b_lit ''hello''" "''abc''" "''AQAB''" "''100''"]
  by (simp add: b_lit_def)

end
